theory Spec2Isabelle
  imports Main
begin

section \<open>Data model of the routine page\<close>

text \<open>
  The page \<^verbatim>\<open>src/pages/RoutinePage.tsx\<close> reads routines, courses and teachers from
  three hooks, joins the slots of the current routine against the course and teacher
  lists, filters the joined slots by day and search term and shows them sorted by start
  time.

  Modelled from the spec: the type declarations of \<^verbatim>\<open>Routine\<close>, its slots,
  \<^verbatim>\<open>Course\<close> and \<^verbatim>\<open>Teacher\<close> are not among the sources. The records below hold the
  fields the page reads, with the optional ones (section 3 of the specification: course
  and teacher reference, denormalized course name, teacher name and room number) as
  \<open>option\<close>, where \<open>None\<close> stands for JavaScript's \<^verbatim>\<open>undefined\<close> and \<^verbatim>\<open>null\<close>.
  Field names carry the owner's name where the source says \<^verbatim>\<open>id\<close>, \<^verbatim>\<open>name\<close>, \<^verbatim>\<open>section\<close> or
  \<^verbatim>\<open>code\<close>.
\<close>

record Course =
  course_id :: string
  course_name :: string
  course_code :: string

record Teacher =
  teacher_id :: string
  teacher_name :: string

record Slot =
  slot_id :: string
  dayOfWeek :: string
  startTime :: string
  endTime :: string
  courseId :: "string option"
  teacherId :: "string option"
  courseName :: "string option"
  teacherName :: "string option"
  roomNumber :: "string option"
  slot_section :: "string option"

record Routine =
  routine_id :: string
  routine_name :: string
  semester :: string
  isActive :: bool
  slots :: "Slot list option"

text \<open>
  An enriched slot is the object literal
  \<^verbatim>\<open>{...slot, course, teacher, courseName, courseCode, teacherName}\<close>: every field of the
  slot, the two resolved records and \<^verbatim>\<open>courseCode\<close> added, and \<^verbatim>\<open>courseName\<close> and
  \<^verbatim>\<open>teacherName\<close> overwritten by the computed display strings.
\<close>

record EnrichedSlot = Slot +
  course :: "Course option"
  teacher :: "Teacher option"
  courseCode :: "string option"

section \<open>JavaScript operators used by the page\<close>

text \<open>A string is falsy when it is \<^verbatim>\<open>undefined\<close> or empty.\<close>

definition truthy :: "string option \<Rightarrow> bool" where
  "truthy v = (case v of None \<Rightarrow> False | Some s \<Rightarrow> s \<noteq> [])"

text \<open>\<^verbatim>\<open>a || b\<close> on possibly undefined strings.\<close>

definition js_or :: "string option \<Rightarrow> string option \<Rightarrow> string option" where
  "js_or a b = (if truthy a then a else b)"

text \<open>\<^verbatim>\<open>obj?.field\<close>: undefined when the object is.\<close>

definition opt_member :: "'a option \<Rightarrow> ('a \<Rightarrow> 'b) \<Rightarrow> 'b option" where
  "opt_member obj field = (case obj of None \<Rightarrow> None | Some x \<Rightarrow> Some (field x))"

text \<open>\<^verbatim>\<open>Array.prototype.find\<close>: the first element that satisfies the predicate.\<close>

fun array_find :: "('a \<Rightarrow> bool) \<Rightarrow> 'a list \<Rightarrow> 'a option" where
  "array_find p [] = None"
| "array_find p (x # xs) = (if p x then Some x else array_find p xs)"

text \<open>\<^verbatim>\<open>arr[0]\<close>: undefined on the empty array.\<close>

definition index0 :: "'a list \<Rightarrow> 'a option" where
  "index0 xs = (case xs of [] \<Rightarrow> None | x # _ \<Rightarrow> Some x)"

section \<open>Selection of the current routine\<close>

text \<open>
  \<^verbatim>\<open>
  const currentRoutine = useMemo(() => {
    if (selectedRoutineId) {
      return routines.find(r => r.id === selectedRoutineId);
    }
    return routines.find(r => r.isActive) || routines[0];
  }, [routines, selectedRoutineId]);
  \<close>
\<close>

definition currentRoutine :: "Routine list \<Rightarrow> string \<Rightarrow> Routine option" where
  "currentRoutine routines selectedRoutineId =
     (if selectedRoutineId \<noteq> []
      then array_find (\<lambda>r. routine_id r = selectedRoutineId) routines
      else (case array_find isActive routines of
              Some r \<Rightarrow> Some r
            | None \<Rightarrow> index0 routines))"

text \<open>
  The effect that stores the default choice:
  \<^verbatim>\<open>
  useEffect(() => {
    if (currentRoutine?.id && !selectedRoutineId) {
      setSelectedRoutineId(currentRoutine.id);
    }
  }, [currentRoutine, selectedRoutineId]);
  \<close>
  The function gives the selected identifier after the effect has run.
\<close>

definition selection_effect :: "Routine list \<Rightarrow> string \<Rightarrow> string" where
  "selection_effect routines selectedRoutineId =
     (if truthy (opt_member (currentRoutine routines selectedRoutineId) routine_id) \<and>
         selectedRoutineId = []
      then (case currentRoutine routines selectedRoutineId of
              Some r \<Rightarrow> routine_id r
            | None \<Rightarrow> selectedRoutineId)
      else selectedRoutineId)"

section \<open>Enrichment\<close>

text \<open>
  The lookup maps: \<^verbatim>\<open>courses.forEach(course => courseMap.set(course.id, course))\<close>, so a
  later record with the same identifier replaces an earlier one.
\<close>

definition courseMap :: "Course list \<Rightarrow> (string \<rightharpoonup> Course)" where
  "courseMap courses = fold (\<lambda>c m. m(course_id c \<mapsto> c)) courses Map.empty"

definition teacherMap :: "Teacher list \<Rightarrow> (string \<rightharpoonup> Teacher)" where
  "teacherMap teachers = fold (\<lambda>t m. m(teacher_id t \<mapsto> t)) teachers Map.empty"

text \<open>\<^verbatim>\<open>slot.courseId ? courseMap.get(slot.courseId) : undefined\<close>\<close>

definition resolve :: "(string \<rightharpoonup> 'a) \<Rightarrow> string option \<Rightarrow> 'a option" where
  "resolve m ref = (case ref of None \<Rightarrow> None | Some k \<Rightarrow> if k \<noteq> [] then m k else None)"

text \<open>
  The body of \<^verbatim>\<open>currentRoutine.slots.map(slot => ...)\<close>:
  \<^verbatim>\<open>
  const course = slot.courseId ? courseMap.get(slot.courseId) : undefined;
  const teacher = slot.teacherId ? teacherMap.get(slot.teacherId) : undefined;
  const courseName = slot.courseName || (course ? course.name : 'Unknown Course');
  const courseCode = course?.code || 'N/A';
  const teacherName = slot.teacherName || (teacher ? teacher.name : 'Unknown Teacher');
  return { ...slot, course, teacher, courseName, courseCode, teacherName };
  \<close>
\<close>

definition enrich_slot :: "(string \<rightharpoonup> Course) \<Rightarrow> (string \<rightharpoonup> Teacher) \<Rightarrow> Slot \<Rightarrow> EnrichedSlot" where
  "enrich_slot cm tm slot =
     (let crs = resolve cm (courseId slot);
          tch = resolve tm (teacherId slot);
          cName = js_or (courseName slot)
                    (case crs of Some c \<Rightarrow> Some (course_name c) | None \<Rightarrow> Some ''Unknown Course'');
          cCode = js_or (opt_member crs course_code) (Some ''N/A'');
          tName = js_or (teacherName slot)
                    (case tch of Some t \<Rightarrow> Some (teacher_name t) | None \<Rightarrow> Some ''Unknown Teacher'')
      in \<lparr> slot_id = slot_id slot, dayOfWeek = dayOfWeek slot,
           startTime = startTime slot, endTime = endTime slot,
           courseId = courseId slot, teacherId = teacherId slot,
           courseName = cName, teacherName = tName,
           roomNumber = roomNumber slot, slot_section = slot_section slot,
           course = crs, teacher = tch, courseCode = cCode \<rparr>)"

text \<open>
  The effect that fills \<^verbatim>\<open>enrichedSlots\<close>: the empty list when there is no current
  routine or it has no slot list (\<^verbatim>\<open>!currentRoutine?.slots\<close>), the mapped slots otherwise.
\<close>

definition enrichedSlots :: "Routine option \<Rightarrow> Course list \<Rightarrow> Teacher list \<Rightarrow> EnrichedSlot list" where
  "enrichedSlots cur courses teachers =
     (case cur of
        None \<Rightarrow> []
      | Some r \<Rightarrow>
          (case slots r of
             None \<Rightarrow> []
           | Some ss \<Rightarrow> map (enrich_slot (courseMap courses) (teacherMap teachers)) ss))"

section \<open>Filtering by day and search term\<close>

text \<open>
  \<^verbatim>\<open>String.prototype.toLowerCase\<close> on the letters \<^verbatim>\<open>A\<close> to \<^verbatim>\<open>Z\<close>; a \<open>char\<close> is a
  byte, and every other byte is left as it is.
\<close>

definition toLowerChar :: "char \<Rightarrow> char" where
  "toLowerChar c =
     (let n = (of_char c :: nat) in if 65 \<le> n \<and> n \<le> 90 then char_of (n + 32) else c)"

definition toLowerCase :: "string \<Rightarrow> string" where
  "toLowerCase s = map toLowerChar s"

text \<open>\<^verbatim>\<open>hay.startsWith(needle)\<close> and \<^verbatim>\<open>hay.includes(needle)\<close>, position by position.\<close>

fun startsWith :: "string \<Rightarrow> string \<Rightarrow> bool" where
  "startsWith hay [] = True"
| "startsWith [] (n # ns) = False"
| "startsWith (h # hs) (n # ns) = (h = n \<and> startsWith hs ns)"

fun string_includes :: "string \<Rightarrow> string \<Rightarrow> bool" where
  "string_includes [] needle = (needle = [])"
| "string_includes (h # hs) needle = (startsWith (h # hs) needle \<or> string_includes hs needle)"

text \<open>
  \<^verbatim>\<open>field?.toLowerCase().includes(searchTerm.toLowerCase())\<close>: the optional chain gives
  \<^verbatim>\<open>undefined\<close>, which is falsy, when the field is undefined.
\<close>

definition field_matches :: "string option \<Rightarrow> string \<Rightarrow> bool" where
  "field_matches field searchTerm =
     (case field of
        None \<Rightarrow> False
      | Some s \<Rightarrow> string_includes (toLowerCase s) (toLowerCase searchTerm))"

text \<open>
  The selected date is a calendar day, counted in days from Thursday 1 January 1970.
  \<^verbatim>\<open>format(date, 'EEEE')\<close> of the date library is the English name of its weekday.
\<close>

type_synonym date = int

definition weekdays :: "string list" where
  "weekdays = [''Sunday'', ''Monday'', ''Tuesday'', ''Wednesday'', ''Thursday'', ''Friday'',
               ''Saturday'']"

definition format_EEEE :: "date \<Rightarrow> string" where
  "format_EEEE d = weekdays ! nat ((d + 4) mod 7)"

text \<open>
  \<^verbatim>\<open>
  enrichedSlots.filter(slot => {
    const matchesSearch = searchTerm === '' ||
      slot.courseName?.toLowerCase().includes(searchTerm.toLowerCase()) ||
      slot.courseCode?.toLowerCase().includes(searchTerm.toLowerCase()) ||
      slot.roomNumber?.toLowerCase().includes(searchTerm.toLowerCase()) ||
      slot.teacherName?.toLowerCase().includes(searchTerm.toLowerCase());
    const matchesDay = format(selectedDate, 'EEEE') === slot.dayOfWeek;
    return matchesSearch && matchesDay;
  })
  \<close>
\<close>

definition matchesSearch :: "string \<Rightarrow> EnrichedSlot \<Rightarrow> bool" where
  "matchesSearch searchTerm slot =
     (searchTerm = [] \<or>
      field_matches (courseName slot) searchTerm \<or>
      field_matches (courseCode slot) searchTerm \<or>
      field_matches (roomNumber slot) searchTerm \<or>
      field_matches (teacherName slot) searchTerm)"

definition matchesDay :: "date \<Rightarrow> EnrichedSlot \<Rightarrow> bool" where
  "matchesDay selectedDate slot = (format_EEEE selectedDate = dayOfWeek slot)"

definition filteredSlots :: "EnrichedSlot list \<Rightarrow> string \<Rightarrow> date \<Rightarrow> EnrichedSlot list" where
  "filteredSlots es searchTerm selectedDate =
     filter (\<lambda>slot. matchesSearch searchTerm slot \<and> matchesDay selectedDate slot) es"

section \<open>Ordering of the displayed slots\<close>

text \<open>
  \<^verbatim>\<open>a.localeCompare(b)\<close> on start times. The page's start times are clock times written
  with digits and colons, on which the collation order is the order of the character
  codes; the model compares character codes position by position and returns -1, 0 or 1.
\<close>

fun localeCompare :: "string \<Rightarrow> string \<Rightarrow> int" where
  "localeCompare [] [] = 0"
| "localeCompare [] (y # ys) = - 1"
| "localeCompare (x # xs) [] = 1"
| "localeCompare (x # xs) (y # ys) =
     (if (of_char x :: nat) < of_char y then - 1
      else if (of_char y :: nat) < of_char x then 1
      else localeCompare xs ys)"

text \<open>
  \<^verbatim>\<open>Array.prototype.sort(compare)\<close>, which the language standard requires to be stable:
  each element is put in front of the first element of the already sorted rest that it
  does not follow, going through the array from its end.
\<close>

fun insert_sorted :: "('a \<Rightarrow> 'a \<Rightarrow> int) \<Rightarrow> 'a \<Rightarrow> 'a list \<Rightarrow> 'a list" where
  "insert_sorted compare x [] = [x]"
| "insert_sorted compare x (y # ys) =
     (if compare x y \<le> 0 then x # y # ys else y # insert_sorted compare x ys)"

definition array_sort :: "('a \<Rightarrow> 'a \<Rightarrow> int) \<Rightarrow> 'a list \<Rightarrow> 'a list" where
  "array_sort compare xs = foldr (insert_sorted compare) xs []"

text \<open>\<^verbatim>\<open>filteredSlots.sort((a, b) => a.startTime.localeCompare(b.startTime))\<close>\<close>

definition byStartTime :: "EnrichedSlot \<Rightarrow> EnrichedSlot \<Rightarrow> int" where
  "byStartTime a b = localeCompare (startTime a) (startTime b)"

definition displayedSlots :: "EnrichedSlot list \<Rightarrow> EnrichedSlot list" where
  "displayedSlots fs = array_sort byStartTime fs"

section \<open>What the page renders\<close>

text \<open>
  The component returns, in this order: the spinner while \<^verbatim>\<open>loading\<close>, the error screen
  when \<^verbatim>\<open>error\<close> is truthy, the screen "No Routine Available" when there is no current
  routine, and otherwise the routine with either "No Classes Scheduled" or the sorted
  slots.
\<close>

datatype view =
    Spinner
  | ErrorLoadingRoutines "string option"
  | NoRoutineAvailable
  | NoClassesScheduled Routine
  | ClassList Routine "EnrichedSlot list"

definition RoutinePage ::
  "Routine list \<Rightarrow> bool \<Rightarrow> string option \<Rightarrow> Course list \<Rightarrow> Teacher list \<Rightarrow>
   date \<Rightarrow> string \<Rightarrow> string \<Rightarrow> view" where
  "RoutinePage routines loading error courses teachers selectedDate searchTerm selectedRoutineId =
     (let cur = currentRoutine routines selectedRoutineId;
          fs = filteredSlots (enrichedSlots cur courses teachers) searchTerm selectedDate
      in if loading then Spinner
         else if truthy error then ErrorLoadingRoutines error
         else (case cur of
                 None \<Rightarrow> NoRoutineAvailable
               | Some r \<Rightarrow> if length fs = 0 then NoClassesScheduled r
                           else ClassList r (displayedSlots fs)))"

section \<open>The same pipeline with exceptions as values\<close>

text \<open>
  Reading a property of \<^verbatim>\<open>undefined\<close>, or calling a method on it, throws a
  \<^verbatim>\<open>TypeError\<close>. The functions of this section evaluate the enrichment as the source
  writes it, guard by guard, with each plain property access as an operation that can
  fail.
\<close>

datatype js_error = TypeError

text \<open>\<^verbatim>\<open>obj.field\<close>\<close>

definition member :: "'a option \<Rightarrow> ('a \<Rightarrow> 'b) \<Rightarrow> js_error + 'b" where
  "member obj field = (case obj of None \<Rightarrow> Inl TypeError | Some x \<Rightarrow> Inr (field x))"

text \<open>\<^verbatim>\<open>slot.xName || (obj ? obj.name : sentinel)\<close>\<close>

definition display_name ::
  "string option \<Rightarrow> 'a option \<Rightarrow> ('a \<Rightarrow> string) \<Rightarrow> string \<Rightarrow> js_error + string option" where
  "display_name denormalized obj field sentinel =
     (if truthy denormalized then Inr denormalized
      else if obj \<noteq> None
           then (case member obj field of Inl e \<Rightarrow> Inl e | Inr v \<Rightarrow> Inr (Some v))
           else Inr (Some sentinel))"

definition enrich_slot_checked ::
  "(string \<rightharpoonup> Course) \<Rightarrow> (string \<rightharpoonup> Teacher) \<Rightarrow> Slot \<Rightarrow> js_error + EnrichedSlot" where
  "enrich_slot_checked cm tm slot =
     (let crs = resolve cm (courseId slot);
          tch = resolve tm (teacherId slot)
      in case display_name (courseName slot) crs course_name ''Unknown Course'' of
           Inl e \<Rightarrow> Inl e
         | Inr cName \<Rightarrow>
             (let cCode = js_or (opt_member crs course_code) (Some ''N/A'')
              in case display_name (teacherName slot) tch teacher_name ''Unknown Teacher'' of
                   Inl e \<Rightarrow> Inl e
                 | Inr tName \<Rightarrow>
                     Inr \<lparr> slot_id = slot_id slot, dayOfWeek = dayOfWeek slot,
                           startTime = startTime slot, endTime = endTime slot,
                           courseId = courseId slot, teacherId = teacherId slot,
                           courseName = cName, teacherName = tName,
                           roomNumber = roomNumber slot, slot_section = slot_section slot,
                           course = crs, teacher = tch, courseCode = cCode \<rparr>))"

text \<open>\<^verbatim>\<open>array.map(f)\<close> where \<open>f\<close> may throw: the first exception ends the loop.\<close>

fun map_checked :: "('a \<Rightarrow> js_error + 'b) \<Rightarrow> 'a list \<Rightarrow> js_error + 'b list" where
  "map_checked f [] = Inr []"
| "map_checked f (x # xs) =
     (case f x of
        Inl e \<Rightarrow> Inl e
      | Inr y \<Rightarrow> (case map_checked f xs of Inl e \<Rightarrow> Inl e | Inr ys \<Rightarrow> Inr (y # ys)))"

text \<open>
  \<^verbatim>\<open>
  if (!currentRoutine?.slots) { setEnrichedSlots([]); return; }
  ...
  const enriched = currentRoutine.slots.map(slot => ...);
  \<close>
\<close>

definition enrichedSlots_checked ::
  "Routine option \<Rightarrow> Course list \<Rightarrow> Teacher list \<Rightarrow> js_error + EnrichedSlot list" where
  "enrichedSlots_checked cur courses teachers =
     (if Option.bind cur slots = None then Inr []
      else (case member cur slots of
              Inl e \<Rightarrow> Inl e
            | Inr sl \<Rightarrow>
                (case member sl (\<lambda>ss. ss) of
                   Inl e \<Rightarrow> Inl e
                 | Inr ss \<Rightarrow>
                     map_checked (enrich_slot_checked (courseMap courses) (teacherMap teachers)) ss)))"

text \<open>
  Enrichment followed by the filter. The filter reads its fields through optional chains
  only and calls \<^verbatim>\<open>toLowerCase\<close> and \<^verbatim>\<open>includes\<close> on strings, so it adds no
  operation that can fail.
\<close>

definition slots_pipeline_checked ::
  "Routine option \<Rightarrow> Course list \<Rightarrow> Teacher list \<Rightarrow> string \<Rightarrow> date \<Rightarrow>
   js_error + EnrichedSlot list" where
  "slots_pipeline_checked cur courses teachers searchTerm selectedDate =
     (case enrichedSlots_checked cur courses teachers of
        Inl e \<Rightarrow> Inl e
      | Inr es \<Rightarrow> Inr (filteredSlots es searchTerm selectedDate))"

section \<open>The offline test script\<close>

text \<open>
  \<^verbatim>\<open>test-offline.js\<close> opens the offline database, counts the records of five object
  stores and prints what it finds. The database is its list of object store names and
  the answer of the count request of each store; a request of the database can fail.
\<close>

datatype idb_error = RequestFailed

record offline_db =
  objectStoreNames :: "string list"
  countRequest :: "string \<Rightarrow> idb_error + nat"

record store_data =
  storeName :: string
  count :: nat
  data :: "string option"

text \<open>
  \<^verbatim>\<open>getStoreData(db, storeName)\<close>: a store that does not exist counts as empty; the
  promise is rejected when the count request fails.
\<close>

definition getStoreData :: "offline_db \<Rightarrow> string \<Rightarrow> idb_error + store_data" where
  "getStoreData db name =
     (if name \<notin> set (objectStoreNames db)
      then Inr \<lparr> storeName = name, count = 0, data = None \<rparr>
      else (case countRequest db name of
              Inl e \<Rightarrow> Inl e
            | Inr n \<Rightarrow> Inr \<lparr> storeName = name, count = n,
                             data = (if n > 0 then Some ''...'' else None) \<rparr>))"

definition storesToCheck :: "string list" where
  "storesToCheck = [''routines'', ''courses'', ''teachers'', ''tasks'', ''userData'']"

text \<open>\<^verbatim>\<open>Promise.all\<close>: all the results in order, or the first rejection.\<close>

fun promise_all :: "(idb_error + 'a) list \<Rightarrow> idb_error + 'a list" where
  "promise_all [] = Inr []"
| "promise_all (p # ps) =
     (case p of
        Inl e \<Rightarrow> Inl e
      | Inr x \<Rightarrow> (case promise_all ps of Inl e \<Rightarrow> Inl e | Inr xs \<Rightarrow> Inr (x # xs)))"

text \<open>
  \<^verbatim>\<open>
  const hasRequiredData = results.every(r =>
    (r.storeName === 'routines' && r.count > 0) ||
    (r.storeName === 'courses' && r.count > 0) ||
    (r.storeName === 'teachers' && r.count > 0)
  );
  \<close>
\<close>

definition hasRequiredData :: "store_data list \<Rightarrow> bool" where
  "hasRequiredData results =
     list_all (\<lambda>r. (storeName r = ''routines'' \<and> count r > 0) \<or>
                   (storeName r = ''courses'' \<and> count r > 0) \<or>
                   (storeName r = ''teachers'' \<and> count r > 0)) results"

text \<open>The lines the script prints once it has tried to open the database.\<close>

datatype console_line =
    FoundStores "string list"
  | StoreNotFound string
  | ErrorCounting string
  | ItemCounts "(string \<times> nat) list"
  | AllRequiredDataFound
  | MissingRequiredData
  | TestComplete
  | IndexedDBError
  | FailedToOpenDatabase

definition verify_cached_data :: "idb_error + offline_db \<Rightarrow> console_line list" where
  "verify_cached_data opened =
     (case opened of
        Inl e \<Rightarrow> [IndexedDBError, FailedToOpenDatabase]
      | Inr db \<Rightarrow>
          FoundStores (objectStoreNames db) #
          map StoreNotFound (filter (\<lambda>n. n \<notin> set (objectStoreNames db)) storesToCheck) @
          (case promise_all (map (getStoreData db) storesToCheck) of
             Inl e \<Rightarrow>
               map ErrorCounting
                 (filter (\<lambda>n. n \<in> set (objectStoreNames db) \<and> countRequest db n = Inl RequestFailed)
                    storesToCheck) @
               [FailedToOpenDatabase]
           | Inr results \<Rightarrow>
               [ItemCounts (map (\<lambda>r. (storeName r, count r)) results),
                if hasRequiredData results then AllRequiredDataFound else MissingRequiredData,
                TestComplete]))"

text \<open>A database that answers every request: its store names and the count of each store.\<close>

definition db_with :: "string list \<Rightarrow> (string \<Rightarrow> nat) \<Rightarrow> offline_db" where
  "db_with names counts = \<lparr> objectStoreNames = names, countRequest = (\<lambda>n. Inr (counts n)) \<rparr>"

section \<open>The sync coordinator\<close>

text \<open>
  Modelled from the spec: \<^verbatim>\<open>prefetchRoutineData\<close> comes from the hook
  \<^verbatim>\<open>useRoutines\<close>, which is not among the sources; the page only calls it when it
  mounts. The definitions follow section 4.2 of the specification and its design note on
  single-flight deduplication: a mapping from kind to the shared handle of the pending
  result, which every caller of \<^verbatim>\<open>prefetch\<close> for that kind attaches to. Calls and
  completions are the steps of one thread of control (section 5), so a run is a sequence
  of steps on the coordinator's state.
\<close>

datatype kind = RoutineKind | CourseKind | TeacherKind

datatype outcome = FetchSucceeded "string list" | FetchFailed

record coordinator =
  in_flight :: "kind \<Rightarrow> nat option"
  fetches :: "kind list"
  next_handle :: nat
  offline :: bool
  settled :: "nat \<Rightarrow> outcome option"
  cache :: "kind \<Rightarrow> string list"
  valid :: "kind \<Rightarrow> bool"

text \<open>
  Modelled from the spec: steps 1, 2 and 5 for one kind. A kind already in flight gives
  its pending handle and nothing else happens; offline, no fetch is issued; otherwise the
  kind is marked in flight and \<^verbatim>\<open>fetchAll(kind)\<close> is issued, which \<open>fetches\<close> records.
\<close>

definition prefetch_kind :: "kind \<Rightarrow> coordinator \<Rightarrow> nat option \<times> coordinator" where
  "prefetch_kind k st =
     (case in_flight st k of
        Some h \<Rightarrow> (Some h, st)
      | None \<Rightarrow>
          if offline st then (None, st)
          else (Some (next_handle st),
                st\<lparr> in_flight := (in_flight st)(k \<mapsto> next_handle st),
                    fetches := fetches st @ [k],
                    next_handle := Suc (next_handle st) \<rparr>))"

text \<open>
  Modelled from the spec: \<^verbatim>\<open>prefetch(kinds)\<close>, kind by kind; the caller gets, for each
  requested kind, the handle of the result it awaits.
\<close>

fun prefetch :: "kind list \<Rightarrow> coordinator \<Rightarrow> (kind \<times> nat option) list \<times> coordinator" where
  "prefetch [] st = ([], st)"
| "prefetch (k # ks) st =
     (case prefetch_kind k st of
        (h, st1) \<Rightarrow> (case prefetch ks st1 of (hs, st2) \<Rightarrow> ((k, h) # hs, st2)))"

text \<open>
  Modelled from the spec: steps 3 and 4, the end of the fetch of a kind. A success
  replaces the cached set and marks it valid, a failure leaves the cache as it is; both
  clear the in-flight marker and settle the handle with the outcome.
\<close>

definition complete_fetch :: "kind \<Rightarrow> outcome \<Rightarrow> coordinator \<Rightarrow> coordinator" where
  "complete_fetch k res st =
     (case in_flight st k of
        None \<Rightarrow> st
      | Some h \<Rightarrow>
          (case res of
             FetchSucceeded records \<Rightarrow>
               st\<lparr> in_flight := (in_flight st)(k := None),
                   settled := (settled st)(h \<mapsto> res),
                   cache := (cache st)(k := records),
                   valid := (valid st)(k := True) \<rparr>
           | FetchFailed \<Rightarrow>
               st\<lparr> in_flight := (in_flight st)(k := None),
                   settled := (settled st)(h \<mapsto> res) \<rparr>))"

text \<open>What a caller that awaits the handle \<open>h\<close> receives.\<close>

definition awaited :: "coordinator \<Rightarrow> nat option \<Rightarrow> outcome option" where
  "awaited st h = (case h of None \<Rightarrow> None | Some n \<Rightarrow> settled st n)"

definition idle :: coordinator where
  "idle = \<lparr> in_flight = (\<lambda>k. None), fetches = [], next_handle = 0, offline = False,
            settled = (\<lambda>h. None), cache = (\<lambda>k. []), valid = (\<lambda>k. False) \<rparr>"

section \<open>The wording of the specification\<close>

text \<open>
  The fallback chain as the specification words it: the denormalized field of the slot
  if present, otherwise the field of the resolved record, otherwise the sentinel.
\<close>

definition spec_fallback_chain :: "string option \<Rightarrow> string option \<Rightarrow> string \<Rightarrow> string option" where
  "spec_fallback_chain denormalized resolved sentinel =
     (case denormalized of
        Some d \<Rightarrow> Some d
      | None \<Rightarrow> (case resolved of Some r \<Rightarrow> Some r | None \<Rightarrow> Some sentinel))"









section \<open>Example data\<close>

definition ex_course :: Course where
  "ex_course = \<lparr> course_id = ''c1'', course_name = ''Data Structures'', course_code = ''CS201'' \<rparr>"

definition ex_course_no_code :: Course where
  "ex_course_no_code = \<lparr> course_id = ''c1'', course_name = ''Data Structures'', course_code = [] \<rparr>"

definition ex_teacher :: Teacher where
  "ex_teacher = \<lparr> teacher_id = ''t1'', teacher_name = ''Ada Lovelace'' \<rparr>"

definition ex_slot :: Slot where
  "ex_slot = \<lparr> slot_id = ''s1'', dayOfWeek = ''Monday'', startTime = ''09:00'',
               endTime = ''10:30'', courseId = Some ''c1'', teacherId = Some ''t1'',
               courseName = None, teacherName = None, roomNumber = Some ''B-204'',
               slot_section = None \<rparr>"

definition ex_slot_blank :: Slot where
  "ex_slot_blank = ex_slot\<lparr> courseName := Some [], teacherName := Some [] \<rparr>"

definition ex_slot_dangling :: Slot where
  "ex_slot_dangling = ex_slot\<lparr> slot_id := ''s2'', startTime := ''08:00'', endTime := ''09:00'',
                               courseId := Some ''c9'', teacherId := Some ''t9'' \<rparr>"

definition ex_slot_wed :: Slot where
  "ex_slot_wed = ex_slot\<lparr> slot_id := ''s3'', dayOfWeek := ''Wednesday'' \<rparr>"

definition ex_routine :: Routine where
  "ex_routine = \<lparr> routine_id = ''r1'', routine_name = ''Section A'', semester = ''Spring'',
                  isActive = True, slots = Some [ex_slot, ex_slot_dangling, ex_slot_wed] \<rparr>"

definition ex_routine_inactive :: Routine where
  "ex_routine_inactive = ex_routine\<lparr> routine_id := ''r0'', isActive := False, slots := None \<rparr>"

definition ex_slot_tie :: Slot where
  "ex_slot_tie = ex_slot\<lparr> slot_id := ''s4'', courseId := None, courseName := Some ''Algorithms'' \<rparr>"

definition ex_routine_ties :: Routine where
  "ex_routine_ties = ex_routine\<lparr> slots := Some [ex_slot, ex_slot_dangling, ex_slot_wed, ex_slot_tie] \<rparr>"

section \<open>Facts about the operators\<close>

lemma array_find_filter:
  "array_find p xs = (case filter p xs of [] \<Rightarrow> None | a # _ \<Rightarrow> Some a)"
  by (induction xs) auto

lemma array_find_None: "array_find p xs = None \<longleftrightarrow> (\<forall>x \<in> set xs. \<not> p x)"
  by (induction xs) auto

lemma array_find_Some: "array_find p xs = Some x \<Longrightarrow> x \<in> set xs \<and> p x"
  by (induction xs) (auto split: if_splits)

text \<open>The lookup maps hold, for each identifier, the last record of the list that has it.\<close>

lemma fold_course_upd:
  "fold (\<lambda>c m. m(course_id c \<mapsto> c)) cs m k =
     (case array_find (\<lambda>c. course_id c = k) (rev cs) of Some c \<Rightarrow> Some c | None \<Rightarrow> m k)"
  by (induction cs rule: rev_induct) auto

lemma fold_teacher_upd:
  "fold (\<lambda>t m. m(teacher_id t \<mapsto> t)) ts m k =
     (case array_find (\<lambda>t. teacher_id t = k) (rev ts) of Some t \<Rightarrow> Some t | None \<Rightarrow> m k)"
  by (induction ts rule: rev_induct) auto

lemma courseMap_find: "courseMap courses k = array_find (\<lambda>c. course_id c = k) (rev courses)"
  by (simp add: courseMap_def fold_course_upd split: option.splits)

lemma teacherMap_find: "teacherMap teachers k = array_find (\<lambda>t. teacher_id t = k) (rev teachers)"
  by (simp add: teacherMap_def fold_teacher_upd split: option.splits)

lemma courseMap_None: "courseMap courses k = None \<longleftrightarrow> k \<notin> course_id ` set courses"
  by (auto simp: courseMap_find array_find_None)

lemma teacherMap_None: "teacherMap teachers k = None \<longleftrightarrow> k \<notin> teacher_id ` set teachers"
  by (auto simp: teacherMap_find array_find_None)

lemma courseMap_Some: "courseMap courses k = Some c \<Longrightarrow> c \<in> set courses \<and> course_id c = k"
  using array_find_Some [of "\<lambda>c. course_id c = k" "rev courses" c] by (simp add: courseMap_find)

lemma teacherMap_Some: "teacherMap teachers k = Some t \<Longrightarrow> t \<in> set teachers \<and> teacher_id t = k"
  using array_find_Some [of "\<lambda>t. teacher_id t = k" "rev teachers" t] by (simp add: teacherMap_find)

section \<open>Facts about enrichment\<close>

lemma enrichedSlots_nth:
  assumes "slots r = Some ss" and "i < length ss"
  shows "enrichedSlots (Some r) courses teachers ! i =
           enrich_slot (courseMap courses) (teacherMap teachers) (ss ! i)"
  using assms by (simp add: enrichedSlots_def)

lemma enrich_slot_course: "course (enrich_slot cm tm s) = resolve cm (courseId s)"
  by (simp add: enrich_slot_def Let_def)

lemma enrich_slot_teacher: "teacher (enrich_slot cm tm s) = resolve tm (teacherId s)"
  by (simp add: enrich_slot_def Let_def)

lemma enrich_slot_courseName:
  "courseName (enrich_slot cm tm s) =
     (if truthy (courseName s) then courseName s
      else (case resolve cm (courseId s) of
              Some c \<Rightarrow> Some (course_name c)
            | None \<Rightarrow> Some ''Unknown Course''))"
  by (simp add: enrich_slot_def Let_def js_or_def)

lemma enrich_slot_teacherName:
  "teacherName (enrich_slot cm tm s) =
     (if truthy (teacherName s) then teacherName s
      else (case resolve tm (teacherId s) of
              Some t \<Rightarrow> Some (teacher_name t)
            | None \<Rightarrow> Some ''Unknown Teacher''))"
  by (simp add: enrich_slot_def Let_def js_or_def)

lemma enrich_slot_courseCode:
  "courseCode (enrich_slot cm tm s) =
     (case resolve cm (courseId s) of
        Some c \<Rightarrow> if course_code c \<noteq> [] then Some (course_code c) else Some ''N/A''
      | None \<Rightarrow> Some ''N/A'')"
  by (simp add: enrich_slot_def Let_def js_or_def opt_member_def truthy_def split: option.splits)

section \<open>The fallback chain\<close>

text \<open>
  Claim C1, as stated: each of \<^verbatim>\<open>courseName\<close>, \<^verbatim>\<open>courseCode\<close> and \<^verbatim>\<open>teacherName\<close> is
  the denormalized field of the slot if present, otherwise the field of the resolved
  record, otherwise the sentinel. The code does not do this where a string is empty: a
  slot whose \<^verbatim>\<open>courseName\<close> is the empty string, with a course that resolves and has an
  empty code, gets the course's name where the stated chain gives the stored empty
  string, and the code \<^verbatim>\<open>N/A\<close> where the stated chain gives the course's empty code.
\<close>

theorem fallback_chain_counterexample:
  "courseName (enrich_slot (courseMap [ex_course_no_code]) (teacherMap [ex_teacher]) ex_slot_blank)
     = Some ''Data Structures'' \<and>
   spec_fallback_chain (courseName ex_slot_blank)
     (opt_member (resolve (courseMap [ex_course_no_code]) (courseId ex_slot_blank)) course_name)
     ''Unknown Course'' = Some [] \<and>
   courseCode (enrich_slot (courseMap [ex_course_no_code]) (teacherMap [ex_teacher]) ex_slot_blank)
     = Some ''N/A'' \<and>
   spec_fallback_chain None
     (opt_member (resolve (courseMap [ex_course_no_code]) (courseId ex_slot_blank)) course_code)
     ''N/A'' = Some []"
  by (simp add: enrich_slot_courseName enrich_slot_courseCode spec_fallback_chain_def
      courseMap_def ex_course_no_code_def ex_slot_blank_def ex_slot_def resolve_def truthy_def
      opt_member_def)

text \<open>
  Claim C1, amended: for the slot at every position of the current routine, the enriched
  slot's \<^verbatim>\<open>course\<close> and \<^verbatim>\<open>teacher\<close> are the records the lookup maps hold for the slot's
  non-empty identifiers; \<^verbatim>\<open>courseName\<close> and \<^verbatim>\<open>teacherName\<close> are the slot's denormalized
  field if it is a non-empty string, otherwise the name of the resolved record, otherwise
  the sentinel \<^verbatim>\<open>Unknown Course\<close> or \<^verbatim>\<open>Unknown Teacher\<close>; \<^verbatim>\<open>courseCode\<close> reads no field of
  the slot and is the code of the resolved course if that is non-empty, otherwise
  \<^verbatim>\<open>N/A\<close>. In particular a slot with no \<^verbatim>\<open>courseName\<close> and an unresolved course gets
  \<^verbatim>\<open>Unknown Course\<close> and \<^verbatim>\<open>N/A\<close>.
\<close>

theorem fallback_chain_truthy:
  assumes "slots r = Some ss" and "i < length ss"
  shows "course (enrichedSlots (Some r) courses teachers ! i) =
           resolve (courseMap courses) (courseId (ss ! i)) \<and>
         teacher (enrichedSlots (Some r) courses teachers ! i) =
           resolve (teacherMap teachers) (teacherId (ss ! i)) \<and>
         courseName (enrichedSlots (Some r) courses teachers ! i) =
           (if truthy (courseName (ss ! i)) then courseName (ss ! i)
            else (case resolve (courseMap courses) (courseId (ss ! i)) of
                    Some c \<Rightarrow> Some (course_name c)
                  | None \<Rightarrow> Some ''Unknown Course'')) \<and>
         courseCode (enrichedSlots (Some r) courses teachers ! i) =
           (case resolve (courseMap courses) (courseId (ss ! i)) of
              Some c \<Rightarrow> if course_code c \<noteq> [] then Some (course_code c) else Some ''N/A''
            | None \<Rightarrow> Some ''N/A'') \<and>
         teacherName (enrichedSlots (Some r) courses teachers ! i) =
           (if truthy (teacherName (ss ! i)) then teacherName (ss ! i)
            else (case resolve (teacherMap teachers) (teacherId (ss ! i)) of
                    Some t \<Rightarrow> Some (teacher_name t)
                  | None \<Rightarrow> Some ''Unknown Teacher'')) \<and>
         (courseName (ss ! i) = None \<and> resolve (courseMap courses) (courseId (ss ! i)) = None \<longrightarrow>
            courseName (enrichedSlots (Some r) courses teachers ! i) = Some ''Unknown Course'' \<and>
            courseCode (enrichedSlots (Some r) courses teachers ! i) = Some ''N/A'')"
  unfolding enrichedSlots_nth [OF assms]
  by (simp add: enrich_slot_course enrich_slot_teacher enrich_slot_courseName
      enrich_slot_teacherName enrich_slot_courseCode truthy_def)

theorem fallback_chain_truthy_witness:
  "courseName (enrichedSlots (Some ex_routine) [ex_course] [ex_teacher] ! 1) = Some ''Unknown Course'' \<and>
   courseCode (enrichedSlots (Some ex_routine) [ex_course] [ex_teacher] ! 1) = Some ''N/A'' \<and>
   teacherName (enrichedSlots (Some ex_routine) [ex_course] [ex_teacher] ! 1) = Some ''Unknown Teacher'' \<and>
   courseName (enrichedSlots (Some ex_routine) [ex_course] [ex_teacher] ! 0) = Some ''Data Structures'' \<and>
   courseCode (enrichedSlots (Some ex_routine) [ex_course] [ex_teacher] ! 0) = Some ''CS201''"
proof -
  have s: "slots ex_routine = Some [ex_slot, ex_slot_dangling, ex_slot_wed]"
    by (simp add: ex_routine_def)
  have i1: "(1::nat) < length [ex_slot, ex_slot_dangling, ex_slot_wed]" by simp
  have i0: "(0::nat) < length [ex_slot, ex_slot_dangling, ex_slot_wed]" by simp
  show ?thesis
    using fallback_chain_truthy [OF s i1, of "[ex_course]" "[ex_teacher]"]
          fallback_chain_truthy [OF s i0, of "[ex_course]" "[ex_teacher]"]
    by (simp add: ex_slot_def ex_slot_dangling_def resolve_def truthy_def ex_course_def
        ex_teacher_def courseMap_def teacherMap_def)
qed

text \<open>
  Claim C9: the chain tests truthiness, so a denormalized field that is the empty string
  counts as absent. For every slot whose \<^verbatim>\<open>courseName\<close> is the empty string the display
  string is the name of the resolved course when one resolves and \<^verbatim>\<open>Unknown Course\<close>
  otherwise, and likewise for \<^verbatim>\<open>teacherName\<close> and \<^verbatim>\<open>Unknown Teacher\<close>.
\<close>

theorem blank_field_treated_as_absent:
  "(courseName s = Some [] \<longrightarrow>
      courseName (enrich_slot cm tm s) =
        (case resolve cm (courseId s) of
           Some c \<Rightarrow> Some (course_name c)
         | None \<Rightarrow> Some ''Unknown Course'')) \<and>
   (teacherName s = Some [] \<longrightarrow>
      teacherName (enrich_slot cm tm s) =
        (case resolve tm (teacherId s) of
           Some t \<Rightarrow> Some (teacher_name t)
         | None \<Rightarrow> Some ''Unknown Teacher''))"
  by (simp add: enrich_slot_courseName enrich_slot_teacherName truthy_def)

theorem blank_field_treated_as_absent_witness:
  "courseName ex_slot_blank = Some [] \<and> teacherName ex_slot_blank = Some [] \<and>
   courseName (enrich_slot (courseMap [ex_course]) (teacherMap []) ex_slot_blank) = Some ''Data Structures'' \<and>
   teacherName (enrich_slot (courseMap [ex_course]) (teacherMap []) ex_slot_blank) = Some ''Unknown Teacher''"
  using blank_field_treated_as_absent [of ex_slot_blank "courseMap [ex_course]" "teacherMap []"]
  by (simp add: ex_slot_blank_def ex_slot_def resolve_def teacherMap_def courseMap_def
      ex_course_def enrich_slot_courseName enrich_slot_teacherName truthy_def)

section \<open>The current routine\<close>

text \<open>
  Claim C5: with no routine explicitly selected (the selected identifier is the empty
  string), the current routine is the first routine of the list whose active flag is
  true; if no routine is active it is the first routine of the list; and there is no
  current routine only when the list is empty.
\<close>

theorem currentRoutine_default:
  "currentRoutine routines [] =
     (case filter isActive routines of
        a # _ \<Rightarrow> Some a
      | [] \<Rightarrow> (case routines of [] \<Rightarrow> None | r # _ \<Rightarrow> Some r))
   \<and> ((currentRoutine routines [] = None) = (routines = []))"
proof -
  have first: "currentRoutine routines [] =
     (case filter isActive routines of
        a # _ \<Rightarrow> Some a
      | [] \<Rightarrow> (case routines of [] \<Rightarrow> None | r # _ \<Rightarrow> Some r))"
    by (simp add: currentRoutine_def array_find_filter index0_def split: list.splits)
  have second: "(currentRoutine routines [] = None) = (routines = [])"
    by (auto simp: currentRoutine_def index0_def split: option.splits list.splits)
  from first second show ?thesis by (rule conjI)
qed

lemma currentRoutine_example:
  "currentRoutine [ex_routine_inactive, ex_routine] [] = Some ex_routine \<and>
   currentRoutine [ex_routine_inactive, ex_routine_inactive] [] = Some ex_routine_inactive \<and>
   currentRoutine [] [] = None \<and>
   selection_effect [ex_routine_inactive, ex_routine] [] = ''r1''"
  by (simp add: currentRoutine_def index0_def ex_routine_def ex_routine_inactive_def
      selection_effect_def opt_member_def truthy_def)

text \<open>
  Claim C8, as stated: once a routine identifier is selected that the list no longer
  holds, the page renders "No Routine Available". The component returns the spinner
  before it looks at the current routine, so while the routines are loading the page
  shows the spinner.
\<close>

theorem stale_selection_counterexample:
  "''r9'' \<noteq> [] \<and> ''r9'' \<notin> routine_id ` set [ex_routine] \<and>
   RoutinePage [ex_routine] True None [] [] 0 [] ''r9'' = Spinner \<and>
   RoutinePage [ex_routine] True None [] [] 0 [] ''r9'' \<noteq> NoRoutineAvailable"
  by (simp add: RoutinePage_def ex_routine_def)

text \<open>
  Claim C8, amended: if a non-empty routine identifier is selected and no routine of the
  list has it, then whatever other routines the list holds there is no fallback to the
  active or the first routine, the current routine is undefined, the effect that stores
  the default choice leaves the selection as it is, and the page, unless it shows the
  spinner (loading) or the error screen (an error message is set), renders
  "No Routine Available".
\<close>

theorem stale_selection_no_fallback:
  assumes "selectedRoutineId \<noteq> []"
    and "selectedRoutineId \<notin> routine_id ` set routines"
  shows "currentRoutine routines selectedRoutineId = None \<and>
         selection_effect routines selectedRoutineId = selectedRoutineId \<and>
         RoutinePage routines loading error courses teachers selectedDate searchTerm selectedRoutineId =
           (if loading then Spinner
            else if truthy error then ErrorLoadingRoutines error
            else NoRoutineAvailable)"
proof -
  have "array_find (\<lambda>r. routine_id r = selectedRoutineId) routines = None"
    using assms(2) by (auto simp: array_find_None)
  then have cur: "currentRoutine routines selectedRoutineId = None"
    using assms(1) by (simp add: currentRoutine_def)
  have keep: "selection_effect routines selectedRoutineId = selectedRoutineId"
    using assms(1) by (simp add: selection_effect_def)
  from cur keep show ?thesis by (simp add: RoutinePage_def)
qed

theorem stale_selection_no_fallback_witness:
  "currentRoutine [ex_routine_inactive, ex_routine] ''r9'' = None \<and>
   selection_effect [ex_routine_inactive, ex_routine] ''r9'' = ''r9'' \<and>
   RoutinePage [ex_routine_inactive, ex_routine] False None [] [] 0 [] ''r9'' = NoRoutineAvailable"
  using stale_selection_no_fallback
          [of "''r9''" "[ex_routine_inactive, ex_routine]" False None "[]" "[]" 0 "[]"]
  by (simp add: ex_routine_def ex_routine_inactive_def truthy_def)

section \<open>One enriched slot per slot\<close>

lemma truncate_enrich_slot:
  "Slot.truncate (enrich_slot cm tm s) =
     s\<lparr> courseName := courseName (enrich_slot cm tm s),
        teacherName := teacherName (enrich_slot cm tm s) \<rparr>"
  by (simp add: enrich_slot_def Let_def Slot.truncate_def)

text \<open>
  Claim C4: for every routine with a slot list and every list of courses and of
  teachers, enrichment gives as many enriched slots as the routine has slots, one per
  slot and in the order of the slots: the identifiers are the slots' identifiers in
  order, and the enriched slot at each position is the slot at that position with only
  its two display names replaced (and the resolved records and the course code added).
\<close>

theorem enrichment_one_per_slot:
  assumes "slots r = Some ss"
  shows "length (enrichedSlots (Some r) courses teachers) = length ss \<and>
         map slot_id (enrichedSlots (Some r) courses teachers) = map slot_id ss \<and>
         (\<forall>i < length ss.
            Slot.truncate (enrichedSlots (Some r) courses teachers ! i) =
              (ss ! i)\<lparr> courseName := courseName (enrichedSlots (Some r) courses teachers ! i),
                        teacherName := teacherName (enrichedSlots (Some r) courses teachers ! i) \<rparr>)"
proof -
  have es: "enrichedSlots (Some r) courses teachers =
              map (enrich_slot (courseMap courses) (teacherMap teachers)) ss"
    using assms by (simp add: enrichedSlots_def)
  have ids: "map slot_id (map (enrich_slot (courseMap courses) (teacherMap teachers)) ss) = map slot_id ss"
    by (simp add: enrich_slot_def Let_def comp_def)
  show ?thesis
    unfolding es using ids by (simp add: truncate_enrich_slot)
qed

theorem enrichment_one_per_slot_witness:
  "length (enrichedSlots (Some ex_routine) [ex_course] [ex_teacher]) = 3 \<and>
   map slot_id (enrichedSlots (Some ex_routine) [ex_course] [ex_teacher]) = [''s1'', ''s2'', ''s3'']"
proof -
  have s: "slots ex_routine = Some [ex_slot, ex_slot_dangling, ex_slot_wed]"
    by (simp add: ex_routine_def)
  show ?thesis
    using enrichment_one_per_slot [OF s, of "[ex_course]" "[ex_teacher]"]
    by (simp add: ex_slot_def ex_slot_dangling_def ex_slot_wed_def)
qed

section \<open>Unresolved references\<close>

lemma enrich_slot_checked_total: "enrich_slot_checked cm tm s = Inr (enrich_slot cm tm s)"
  by (cases "resolve cm (courseId s)"; cases "resolve tm (teacherId s)")
     (simp_all add: enrich_slot_checked_def enrich_slot_def display_name_def member_def js_or_def Let_def)

lemma map_checked_total: "(\<And>x. f x = Inr (g x)) \<Longrightarrow> map_checked f xs = Inr (map g xs)"
  by (induction xs) simp_all

lemma enrichedSlots_checked_total:
  "enrichedSlots_checked cur courses teachers = Inr (enrichedSlots cur courses teachers)"
proof (cases cur)
  case None
  then show ?thesis by (simp add: enrichedSlots_checked_def enrichedSlots_def)
next
  case (Some r)
  show ?thesis
  proof (cases "slots r")
    case None
    with Some show ?thesis by (simp add: enrichedSlots_checked_def enrichedSlots_def)
  next
    case (Some ss)
    with \<open>cur = Some r\<close> show ?thesis
      by (simp add: enrichedSlots_checked_def enrichedSlots_def member_def
          map_checked_total [OF enrich_slot_checked_total])
  qed
qed

text \<open>
  Claim C6: enrichment followed by the filter, evaluated with every property access on
  \<^verbatim>\<open>undefined\<close> as a \<^verbatim>\<open>TypeError\<close>, returns a result on every input and never an
  exception, and so does the enrichment of every single slot. A slot whose course
  identifier is the identifier of no course of the list gets \<^verbatim>\<open>course\<close> undefined, its
  own non-empty denormalized course name or else \<^verbatim>\<open>Unknown Course\<close>, and the code
  \<^verbatim>\<open>N/A\<close>; a slot whose teacher identifier is the identifier of no teacher gets
  \<^verbatim>\<open>teacher\<close> undefined and its own non-empty denormalized teacher name or else
  \<^verbatim>\<open>Unknown Teacher\<close>.
\<close>

theorem unresolved_reference_never_raises:
  "slots_pipeline_checked cur courses teachers searchTerm selectedDate =
     Inr (filteredSlots (enrichedSlots cur courses teachers) searchTerm selectedDate) \<and>
   enrich_slot_checked (courseMap courses) (teacherMap teachers) s =
     Inr (enrich_slot (courseMap courses) (teacherMap teachers) s) \<and>
   ((\<forall>c \<in> set courses. courseId s \<noteq> Some (course_id c)) \<longrightarrow>
      course (enrich_slot (courseMap courses) (teacherMap teachers) s) = None \<and>
      courseName (enrich_slot (courseMap courses) (teacherMap teachers) s) =
        (if truthy (courseName s) then courseName s else Some ''Unknown Course'') \<and>
      courseCode (enrich_slot (courseMap courses) (teacherMap teachers) s) = Some ''N/A'') \<and>
   ((\<forall>t \<in> set teachers. teacherId s \<noteq> Some (teacher_id t)) \<longrightarrow>
      teacher (enrich_slot (courseMap courses) (teacherMap teachers) s) = None \<and>
      teacherName (enrich_slot (courseMap courses) (teacherMap teachers) s) =
        (if truthy (teacherName s) then teacherName s else Some ''Unknown Teacher''))"
proof -
  have pipeline: "slots_pipeline_checked cur courses teachers searchTerm selectedDate =
     Inr (filteredSlots (enrichedSlots cur courses teachers) searchTerm selectedDate)"
    by (simp add: slots_pipeline_checked_def enrichedSlots_checked_total)
  have c: "resolve (courseMap courses) (courseId s) = None"
    if "\<forall>c \<in> set courses. courseId s \<noteq> Some (course_id c)"
  proof (cases "courseId s")
    case None
    then show ?thesis by (simp add: resolve_def)
  next
    case (Some k)
    with that have "k \<notin> course_id ` set courses" by auto
    then have "courseMap courses k = None" by (simp add: courseMap_None)
    with Some show ?thesis by (simp add: resolve_def)
  qed
  have t: "resolve (teacherMap teachers) (teacherId s) = None"
    if "\<forall>t \<in> set teachers. teacherId s \<noteq> Some (teacher_id t)"
  proof (cases "teacherId s")
    case None
    then show ?thesis by (simp add: resolve_def)
  next
    case (Some k)
    with that have "k \<notin> teacher_id ` set teachers" by auto
    then have "teacherMap teachers k = None" by (simp add: teacherMap_None)
    with Some show ?thesis by (simp add: resolve_def)
  qed
  show ?thesis
    using pipeline c t
    by (simp add: enrich_slot_checked_total enrich_slot_course enrich_slot_teacher
        enrich_slot_courseName enrich_slot_teacherName enrich_slot_courseCode)
qed

theorem unresolved_reference_never_raises_witness:
  "(\<exists>es. slots_pipeline_checked (Some ex_routine) [ex_course] [ex_teacher] [] 4 = Inr es) \<and>
   course (enrich_slot (courseMap [ex_course]) (teacherMap [ex_teacher]) ex_slot_dangling) = None \<and>
   courseName (enrich_slot (courseMap [ex_course]) (teacherMap [ex_teacher]) ex_slot_dangling) = Some ''Unknown Course'' \<and>
   courseCode (enrich_slot (courseMap [ex_course]) (teacherMap [ex_teacher]) ex_slot_dangling) = Some ''N/A'' \<and>
   teacher (enrich_slot (courseMap [ex_course]) (teacherMap [ex_teacher]) ex_slot_dangling) = None \<and>
   teacherName (enrich_slot (courseMap [ex_course]) (teacherMap [ex_teacher]) ex_slot_dangling) = Some ''Unknown Teacher''"
  using unresolved_reference_never_raises
          [of "Some ex_routine" "[ex_course]" "[ex_teacher]" "[]" 4 ex_slot_dangling]
  by (simp add: ex_slot_dangling_def ex_slot_def ex_course_def ex_teacher_def truthy_def)

section \<open>The filter\<close>










lemma filteredSlots_example:
  "map slot_id
     (filteredSlots (enrichedSlots (Some ex_routine_ties) [ex_course] [ex_teacher]) ''STRUCT'' 4)
     = [''s1''] \<and>
   map slot_id
     (filteredSlots (enrichedSlots (Some ex_routine_ties) [ex_course] [ex_teacher]) ''b-2'' 6)
     = [''s3'']"
  by code_simp

section \<open>The order of the displayed slots\<close>


lemma localeCompare_flip: "localeCompare b a = - localeCompare a b"
  by (induction a b rule: localeCompare.induct) auto

lemma char_code_eq: "(of_char x :: nat) = of_char y \<longleftrightarrow> x = y"
  by simp

lemma localeCompare_Cons_le:
  "localeCompare (x # xs) (y # ys) \<le> 0 \<longleftrightarrow>
     (of_char x :: nat) < of_char y \<or> (x = y \<and> localeCompare xs ys \<le> 0)"
proof -
  consider "(of_char x :: nat) < of_char y" | "(of_char y :: nat) < of_char x"
    | "(of_char x :: nat) = of_char y"
    by linarith
  then show ?thesis
  proof cases
    case 1
    then show ?thesis by simp
  next
    case 2
    then have "x \<noteq> y" by auto
    with 2 show ?thesis by simp
  next
    case 3
    then have "x = y" by simp
    then show ?thesis by simp
  qed
qed

lemma localeCompare_Cons_zero:
  "localeCompare (x # xs) (y # ys) = 0 \<longleftrightarrow> x = y \<and> localeCompare xs ys = 0"
proof -
  consider "(of_char x :: nat) < of_char y" | "(of_char y :: nat) < of_char x"
    | "(of_char x :: nat) = of_char y"
    by linarith
  then show ?thesis
  proof cases
    case 1
    then have "x \<noteq> y" by auto
    with 1 show ?thesis by simp
  next
    case 2
    then have "x \<noteq> y" by auto
    with 2 show ?thesis by simp
  next
    case 3
    then have "x = y" by simp
    then show ?thesis by simp
  qed
qed

lemma localeCompare_zero_iff: "localeCompare a b = 0 \<longleftrightarrow> a = b"
proof (induction a arbitrary: b)
  case Nil
  show ?case by (cases b) simp_all
next
  case (Cons x xs)
  show ?case
  proof (cases b)
    case Nil
    then show ?thesis by simp
  next
    case (Cons y ys)
    show ?thesis
      unfolding Cons localeCompare_Cons_zero by (simp add: Cons.IH)
  qed
qed

lemma localeCompare_trans:
  "localeCompare a b \<le> 0 \<Longrightarrow> localeCompare b c \<le> 0 \<Longrightarrow> localeCompare a c \<le> 0"
proof (induction a arbitrary: b c)
  case Nil
  show ?case by (cases c) simp_all
next
  case (Cons x xs)
  from Cons.prems(1) obtain y ys where b: "b = y # ys"
    by (cases b) simp_all
  from Cons.prems(2) b obtain z zs where c: "c = z # zs"
    by (cases c) simp_all
  from Cons.prems(1) have xy:
    "(of_char x :: nat) < of_char y \<or> (x = y \<and> localeCompare xs ys \<le> 0)"
    unfolding b localeCompare_Cons_le .
  from Cons.prems(2) have yz:
    "(of_char y :: nat) < of_char z \<or> (y = z \<and> localeCompare ys zs \<le> 0)"
    unfolding b c localeCompare_Cons_le .
  show ?case
  proof (cases "(of_char x :: nat) < of_char z")
    case True
    then show ?thesis unfolding c localeCompare_Cons_le by simp
  next
    case False
    have "x = y \<and> localeCompare xs ys \<le> 0"
    proof (rule ccontr)
      assume "\<not> ?thesis"
      with xy have lt: "(of_char x :: nat) < of_char y" by blast
      from yz have "(of_char y :: nat) \<le> of_char z" by auto
      with lt False show False by linarith
    qed
    moreover have "y = z \<and> localeCompare ys zs \<le> 0"
    proof (rule ccontr)
      assume "\<not> ?thesis"
      with yz have lt: "(of_char y :: nat) < of_char z" by blast
      from xy have "(of_char x :: nat) \<le> of_char y" by auto
      with lt False show False by linarith
    qed
    ultimately have "x = z" and "localeCompare xs zs \<le> 0"
      using Cons.IH [of ys zs] by simp_all
    then show ?thesis unfolding c localeCompare_Cons_le by simp
  qed
qed

lemma localeCompare_total: "localeCompare a b \<le> 0 \<or> localeCompare b a \<le> 0"
  using localeCompare_flip [of b a] by linarith

text \<open>Inserting keeps the list sorted and keeps the order among equal start times.\<close>

lemma set_insert_sorted: "set (insert_sorted cmp x ys) = insert x (set ys)"
  by (induction ys) auto


lemma sorted_insert_sorted:
  assumes "sorted_wrt (\<lambda>a b. byStartTime a b \<le> 0) ys"
  shows "sorted_wrt (\<lambda>a b. byStartTime a b \<le> 0) (insert_sorted byStartTime x ys)"
  using assms
proof (induction ys)
  case Nil
  show ?case by simp
next
  case (Cons y ys)
  show ?case
  proof (cases "byStartTime x y \<le> 0")
    case True
    have "byStartTime x z \<le> 0" if "z \<in> set ys" for z
    proof -
      from Cons.prems that have "byStartTime y z \<le> 0" by simp
      with True show ?thesis
        unfolding byStartTime_def by (rule localeCompare_trans)
    qed
    with True Cons.prems show ?thesis by simp
  next
    case False
    then have "byStartTime y x \<le> 0"
      using localeCompare_total [of "startTime x" "startTime y"] by (simp add: byStartTime_def)
    with False Cons show ?thesis by (auto simp: set_insert_sorted)
  qed
qed


lemma array_sort_Cons: "array_sort cmp (x # xs) = insert_sorted cmp x (array_sort cmp xs)"
  by (simp add: array_sort_def)

lemma sorted_array_sort: "sorted_wrt (\<lambda>a b. byStartTime a b \<le> 0) (array_sort byStartTime xs)"
  by (induction xs) (simp_all add: array_sort_Cons sorted_insert_sorted, simp add: array_sort_def)




text \<open>
  The sort works in place on the memoized array, so a second render sorts the sorted
  array again; that changes nothing.
\<close>

lemma array_sort_sorted:
  "sorted_wrt (\<lambda>a b. cmp a b \<le> 0) xs \<Longrightarrow> array_sort cmp xs = xs"
proof (induction xs)
  case Nil
  show ?case by (simp add: array_sort_def)
next
  case (Cons x xs)
  then have "array_sort cmp xs = xs" by simp
  with Cons.prems show ?case by (cases xs) (simp_all add: array_sort_Cons)
qed

lemma displayedSlots_idem: "displayedSlots (displayedSlots fs) = displayedSlots fs"
  unfolding displayedSlots_def by (rule array_sort_sorted) (rule sorted_array_sort)







lemma ex_filtered:
  "map slot_id (filteredSlots (enrichedSlots (Some ex_routine_ties) [ex_course] [ex_teacher]) [] 4)
     = [''s1'', ''s2'', ''s4'']"
  by (simp add: filteredSlots_def enrichedSlots_def ex_routine_ties_def ex_routine_def
      matchesSearch_def matchesDay_def format_EEEE_def weekdays_def enrich_slot_def Let_def
      ex_slot_def ex_slot_dangling_def ex_slot_wed_def ex_slot_tie_def)





section \<open>The required-data check of the test script\<close>

lemma getStoreData_storeName: "getStoreData db n = Inr r \<Longrightarrow> storeName r = n"
  by (auto simp: getStoreData_def split: if_splits sum.splits)

lemma promise_all_names:
  "promise_all (map (getStoreData db) ns) = Inr rs \<Longrightarrow> map storeName rs = ns"
proof (induction ns arbitrary: rs)
  case Nil
  then show ?case by simp
next
  case (Cons n ns)
  then show ?case
    by (auto split: sum.splits dest: getStoreData_storeName)
qed

lemma hasRequiredData_needs_names:
  "hasRequiredData rs \<Longrightarrow> set (map storeName rs) \<subseteq> {''routines'', ''courses'', ''teachers''}"
  by (auto simp: hasRequiredData_def list_all_iff)

lemma hasRequiredData_False:
  assumes "promise_all (map (getStoreData db) storesToCheck) = Inr rs"
  shows "\<not> hasRequiredData rs"
proof
  assume "hasRequiredData rs"
  then have "set (map storeName rs) \<subseteq> {''routines'', ''courses'', ''teachers''}"
    by (rule hasRequiredData_needs_names)
  moreover have "map storeName rs = storesToCheck"
    using assms by (rule promise_all_names)
  ultimately have "''tasks'' \<in> {''routines'', ''courses'', ''teachers''}"
    by (auto simp: storesToCheck_def)
  then show False by simp
qed

lemma promise_all_Inr: "promise_all (map (\<lambda>x. Inr (f x)) xs) = Inr (map f xs)"
  by (induction xs) simp_all

lemma getStoreData_db_with:
  "getStoreData (db_with names counts) =
     (\<lambda>n. Inr (if n \<notin> set names then \<lparr> storeName = n, count = 0, data = None \<rparr>
                else \<lparr> storeName = n, count = counts n,
                       data = (if counts n > 0 then Some ''...'' else None) \<rparr>))"
  by (rule ext) (simp add: getStoreData_def db_with_def)

lemma db_with_results:
  "\<exists>rs. promise_all (map (getStoreData (db_with names counts)) storesToCheck) = Inr rs"
  unfolding getStoreData_db_with promise_all_Inr by blast

lemma success_never_printed: "AllRequiredDataFound \<notin> set (verify_cached_data opened)"
proof (cases opened)
  case (Inl e)
  then show ?thesis by (simp add: verify_cached_data_def)
next
  case (Inr db)
  show ?thesis
  proof (cases "promise_all (map (getStoreData db) storesToCheck)")
    case (Inl e)
    with Inr show ?thesis by (auto simp: verify_cached_data_def)
  next
    case (Inr rs)
    then have "\<not> hasRequiredData rs" by (rule hasRequiredData_False)
    with Inr \<open>opened = Inr db\<close> show ?thesis by (auto simp: verify_cached_data_def)
  qed
qed

lemma test_script_example:
  "verify_cached_data (Inr (db_with [''routines'', ''courses'', ''teachers'', ''tasks'', ''userData''] (\<lambda>n. 7))) =
     [FoundStores [''routines'', ''courses'', ''teachers'', ''tasks'', ''userData''],
      ItemCounts [(''routines'', 7), (''courses'', 7), (''teachers'', 7), (''tasks'', 7), (''userData'', 7)],
      MissingRequiredData, TestComplete]"
  by (simp add: verify_cached_data_def getStoreData_def storesToCheck_def hasRequiredData_def
      db_with_def)

text \<open>
  Claim C10: whatever the offline database holds (any list of store names and any
  counts), the script gets one result for each of the five checked stores,
  \<^verbatim>\<open>tasks\<close> and \<^verbatim>\<open>userData\<close> among them, and \<^verbatim>\<open>hasRequiredData\<close> is false, because
  \<^verbatim>\<open>every\<close> asks each result to be named \<^verbatim>\<open>routines\<close>, \<^verbatim>\<open>courses\<close> or \<^verbatim>\<open>teachers\<close>;
  the script prints the warning about missing data; and on no run at all, also when the
  database cannot be opened or a count request fails, does it print the success message.
\<close>

theorem test_script_always_reports_missing_data:
  "(\<exists>results. promise_all (map (getStoreData (db_with names counts)) storesToCheck) = Inr results \<and>
      map storeName results = storesToCheck \<and> hasRequiredData results = False) \<and>
   MissingRequiredData \<in> set (verify_cached_data (Inr (db_with names counts))) \<and>
   AllRequiredDataFound \<notin> set (verify_cached_data opened)"
proof -
  obtain rs where rs: "promise_all (map (getStoreData (db_with names counts)) storesToCheck) = Inr rs"
    using db_with_results by blast
  then have no: "\<not> hasRequiredData rs" by (rule hasRequiredData_False)
  have names: "map storeName rs = storesToCheck" using rs by (rule promise_all_names)
  have "MissingRequiredData \<in> set (verify_cached_data (Inr (db_with names counts)))"
    using rs no by (simp add: verify_cached_data_def)
  with rs no names success_never_printed show ?thesis by blast
qed

section \<open>Single flight of the sync coordinator\<close>

lemma prefetch_kind_offline: "offline (snd (prefetch_kind k st)) = offline st"
  by (simp add: prefetch_kind_def split: option.splits)

lemma prefetch_kind_mono:
  "in_flight st j = Some h \<Longrightarrow> in_flight (snd (prefetch_kind k st)) j = Some h"
  by (auto simp: prefetch_kind_def split: option.splits)

lemma prefetch_kind_marks:
  "\<not> offline st \<Longrightarrow> in_flight (snd (prefetch_kind k st)) k \<noteq> None"
  by (auto simp: prefetch_kind_def split: option.splits)

lemma prefetch_kind_handle:
  "fst (prefetch_kind k st) = in_flight (snd (prefetch_kind k st)) k"
  by (auto simp: prefetch_kind_def split: option.splits)

lemma prefetch_kind_noop:
  "in_flight st k \<noteq> None \<or> offline st \<Longrightarrow> prefetch_kind k st = (in_flight st k, st)"
  by (auto simp: prefetch_kind_def split: option.splits)

lemma prefetch_kind_fetches:
  "fetches (snd (prefetch_kind k st)) =
     fetches st @ (if in_flight st k = None \<and> \<not> offline st then [k] else [])"
  by (auto simp: prefetch_kind_def split: option.splits)

lemma prefetch_kind_None:
  "in_flight (snd (prefetch_kind k st)) j = None \<Longrightarrow> in_flight st j = None"
  using prefetch_kind_mono [of st j _ k] by (cases "in_flight st j") auto

lemma prefetch_Cons:
  "prefetch (k # ks) st =
     ((k, fst (prefetch_kind k st)) # fst (prefetch ks (snd (prefetch_kind k st))),
      snd (prefetch ks (snd (prefetch_kind k st))))"
  by (simp split: prod.splits)

lemma prefetch_offline: "offline (snd (prefetch ks st)) = offline st"
  by (induction ks arbitrary: st) (simp_all add: prefetch_Cons prefetch_kind_offline del: prefetch.simps(2))

lemma prefetch_mono:
  "in_flight st j = Some h \<Longrightarrow> in_flight (snd (prefetch ks st)) j = Some h"
  by (induction ks arbitrary: st) (simp_all add: prefetch_Cons prefetch_kind_mono del: prefetch.simps(2))

lemma prefetch_marks:
  "\<not> offline st \<Longrightarrow> k \<in> set ks \<Longrightarrow> in_flight (snd (prefetch ks st)) k \<noteq> None"
proof (induction ks arbitrary: st)
  case Nil
  then show ?case by simp
next
  case (Cons j ks)
  let ?st1 = "snd (prefetch_kind j st)"
  have off: "\<not> offline ?st1" using Cons.prems(1) by (simp add: prefetch_kind_offline)
  show ?case
  proof (cases "k = j")
    case True
    from Cons.prems(1) obtain h where "in_flight ?st1 j = Some h"
      using prefetch_kind_marks [of st j] by auto
    then have "in_flight (snd (prefetch ks ?st1)) j = Some h" by (rule prefetch_mono)
    with True show ?thesis by (simp add: prefetch_Cons del: prefetch.simps(2))
  next
    case False
    with Cons.prems(2) have "k \<in> set ks" by simp
    with off have "in_flight (snd (prefetch ks ?st1)) k \<noteq> None" by (rule Cons.IH)
    then show ?thesis by (simp add: prefetch_Cons del: prefetch.simps(2))
  qed
qed

lemma prefetch_noop:
  "\<forall>k \<in> set ks. in_flight st k \<noteq> None \<or> offline st \<Longrightarrow>
   prefetch ks st = (map (\<lambda>k. (k, in_flight st k)) ks, st)"
proof (induction ks)
  case Nil
  show ?case by simp
next
  case (Cons j ks)
  from Cons.prems have "in_flight st j \<noteq> None \<or> offline st"
    by auto
  then have "prefetch_kind j st = (in_flight st j, st)"
    by (rule prefetch_kind_noop)
  moreover from Cons.prems have "\<forall>k \<in> set ks. in_flight st k \<noteq> None \<or> offline st"
    by auto
  then have "prefetch ks st = (map (\<lambda>k. (k, in_flight st k)) ks, st)"
    by (rule Cons.IH)
  ultimately show ?case by simp
qed

lemma prefetch_handles:
  "fst (prefetch ks st) = map (\<lambda>k. (k, in_flight (snd (prefetch ks st)) k)) ks"
proof (induction ks arbitrary: st)
  case Nil
  show ?case by simp
next
  case (Cons j ks)
  let ?st1 = "snd (prefetch_kind j st)"
  have "fst (prefetch_kind j st) = in_flight (snd (prefetch ks ?st1)) j"
  proof (cases "fst (prefetch_kind j st)")
    case None
    then have none1: "in_flight ?st1 j = None" by (simp add: prefetch_kind_handle)
    then have "in_flight st j = None" by (rule prefetch_kind_None)
    with None have "offline st" by (auto simp: prefetch_kind_def split: if_splits)
    then have "offline ?st1" by (simp add: prefetch_kind_offline)
    then have "prefetch ks ?st1 = (map (\<lambda>k. (k, in_flight ?st1 k)) ks, ?st1)"
      by (simp add: prefetch_noop)
    with none1 None show ?thesis by simp
  next
    case (Some h)
    then have "in_flight ?st1 j = Some h" by (simp add: prefetch_kind_handle)
    then have "in_flight (snd (prefetch ks ?st1)) j = Some h" by (rule prefetch_mono)
    with Some show ?thesis by simp
  qed
  with Cons.IH [of ?st1] show ?case by (simp add: prefetch_Cons del: prefetch.simps(2))
qed

lemma prefetch_None:
  "in_flight (snd (prefetch ks st)) j = None \<Longrightarrow> in_flight st j = None"
  using prefetch_mono [of st j _ ks] by (cases "in_flight st j") auto

lemma prefetch_fetches:
  "\<exists>new. fetches (snd (prefetch ks st)) = fetches st @ new \<and> distinct new \<and>
         set new \<subseteq> set ks \<and> (\<forall>k \<in> set new. in_flight st k = None \<and> \<not> offline st)"
proof (induction ks arbitrary: st)
  case Nil
  show ?case by simp
next
  case (Cons j ks)
  let ?st1 = "snd (prefetch_kind j st)"
  obtain new where new: "fetches (snd (prefetch ks ?st1)) = fetches ?st1 @ new" "distinct new"
    "set new \<subseteq> set ks" "\<forall>k \<in> set new. in_flight ?st1 k = None \<and> \<not> offline ?st1"
    using Cons.IH [of ?st1] by blast
  let ?first = "if in_flight st j = None \<and> \<not> offline st then [j] else []"
  have eq: "fetches (snd (prefetch (j # ks) st)) = fetches st @ (?first @ new)"
    using new(1) by (simp add: prefetch_Cons prefetch_kind_fetches del: prefetch.simps(2))
  have old: "\<forall>k \<in> set new. in_flight st k = None \<and> \<not> offline st"
    using new(4) prefetch_kind_None [of j st] by (auto simp: prefetch_kind_offline)
  have "j \<notin> set new" if "in_flight st j = None" "\<not> offline st"
  proof
    assume "j \<in> set new"
    with new(4) have "in_flight ?st1 j = None" by blast
    moreover have "in_flight ?st1 j \<noteq> None" using that(2) by (rule prefetch_kind_marks)
    ultimately show False by simp
  qed
  with new(2) have dist: "distinct (?first @ new)" by auto
  have sub: "set (?first @ new) \<subseteq> set (j # ks)" using new(3) by auto
  have "\<forall>k \<in> set (?first @ new). in_flight st k = None \<and> \<not> offline st"
    using old by auto
  with eq dist sub show ?case by blast
qed

lemma complete_fetch_settles:
  "in_flight st k = Some h \<Longrightarrow> awaited (complete_fetch k res st) (Some h) = Some res"
  by (cases res) (simp_all add: complete_fetch_def awaited_def)

lemma prefetch_twice_example:
  "fetches (snd (prefetch [RoutineKind, CourseKind, TeacherKind]
             (snd (prefetch [RoutineKind, CourseKind, TeacherKind] idle)))) =
     [RoutineKind, CourseKind, TeacherKind] \<and>
   fst (prefetch [RoutineKind, CourseKind, TeacherKind]
         (snd (prefetch [RoutineKind, CourseKind, TeacherKind] idle))) =
     [(RoutineKind, Some 0), (CourseKind, Some 1), (TeacherKind, Some 2)] \<and>
   fst (prefetch [RoutineKind, CourseKind, TeacherKind] idle) =
     [(RoutineKind, Some 0), (CourseKind, Some 1), (TeacherKind, Some 2)]"
  by (simp add: prefetch_kind_def idle_def)

text \<open>
  Claim C7: from any state of the coordinator and for any list of kinds (the three kinds
  routine, course and teacher in particular), a second \<^verbatim>\<open>prefetch\<close> right after the
  first one changes nothing and hands the second caller the handles of the first; the
  two calls together issue each kind's fetch at most once; so whatever state the fetches
  end in, both callers read the same outcome for every kind.
\<close>

theorem prefetch_single_flight:
  "prefetch ks (snd (prefetch ks st)) = (fst (prefetch ks st), snd (prefetch ks st)) \<and>
   (\<exists>new. fetches (snd (prefetch ks (snd (prefetch ks st)))) = fetches st @ new \<and>
          distinct new \<and> set new \<subseteq> set ks) \<and>
   map (\<lambda>(k, h). awaited later h) (fst (prefetch ks (snd (prefetch ks st)))) =
     map (\<lambda>(k, h). awaited later h) (fst (prefetch ks st))"
proof -
  let ?st1 = "snd (prefetch ks st)"
  have "\<forall>k \<in> set ks. in_flight ?st1 k \<noteq> None \<or> offline ?st1"
    using prefetch_marks [of st _ ks] by (auto simp: prefetch_offline)
  then have "prefetch ks ?st1 = (map (\<lambda>k. (k, in_flight ?st1 k)) ks, ?st1)"
    by (rule prefetch_noop)
  then have again: "prefetch ks ?st1 = (fst (prefetch ks st), ?st1)"
    by (simp add: prefetch_handles [of ks st])
  obtain new where "fetches ?st1 = fetches st @ new" "distinct new" "set new \<subseteq> set ks"
    using prefetch_fetches [of ks st] by blast
  with again show ?thesis by auto
qed

end
